theory Spec2Isabelle
  imports Complex_Main
begin

section \<open>Data model\<close>

text \<open>
  The bot reads guilds, roles and text channels through the attributes of the
  Discord client library's objects. Each object is modelled by the attributes
  that the code under \<^verbatim>\<open>src/\<close> reads: \<^verbatim>\<open>id\<close>, \<^verbatim>\<open>name\<close>, \<^verbatim>\<open>mention\<close> of a role,
  \<^verbatim>\<open>id\<close> and \<^verbatim>\<open>name\<close> of a text channel, \<^verbatim>\<open>id\<close>, \<^verbatim>\<open>roles\<close>, \<^verbatim>\<open>text_channels\<close> and
  \<^verbatim>\<open>rules_channel\<close> of a guild. Python integers are unbounded, hence \<open>int\<close>.
  Python's \<^verbatim>\<open>str\<close> is modelled by \<open>string\<close>; the model therefore covers the
  strings all of whose code points are below 256.
\<close>

record role =
  role_id :: int
  role_name :: string
  role_mention :: string

record text_channel =
  channel_id :: int
  channel_name :: string

record guild =
  guild_id :: int
  roles :: "role list"
  text_channels :: "text_channel list"
  rules_channel :: "text_channel option"

text \<open>
  The values that an entry of the \<^verbatim>\<open>settings\<close> dictionary may hold, with Python's
  truth value of each (\<^verbatim>\<open>None\<close>, the empty string and zero are falsy).
\<close>

datatype pyval = PyNone | PyStr string | PyInt int

fun truthy :: "pyval \<Rightarrow> bool" where
  "truthy PyNone = False"
| "truthy (PyStr s) = (s \<noteq> [])"
| "truthy (PyInt n) = (n \<noteq> 0)"

text \<open>
  The two entries of \<^verbatim>\<open>settings\<close> that the code reads. The module \<^verbatim>\<open>setup\<close> that
  fills the dictionary is not part of the sources, so the dictionary is a
  parameter of every function that reads it.
\<close>

record settings =
  DISCORD_BOT_APPLICATION_ID :: pyval
  DISCORD_GUILD_ID :: int

text \<open>
  The exceptions that the code raises or names. An exception class used with
  \<^verbatim>\<open>except\<close> or \<^verbatim>\<open>isinstance\<close> is represented by the predicate that holds of
  its instances.
\<close>

datatype exn =
    GuildDoesNotExist int
  | StrikeTrackingError string
  | ImproperlyConfigured string
  | TypeError string
  | AttributeError string
  | OtherError string string

type_synonym exn_type = "exn \<Rightarrow> bool"

fun GuildDoesNotExist_type :: exn_type where
  "GuildDoesNotExist_type (GuildDoesNotExist _) = True"
| "GuildDoesNotExist_type _ = False"

fun StrikeTrackingError_type :: exn_type where
  "StrikeTrackingError_type (StrikeTrackingError _) = True"
| "StrikeTrackingError_type _ = False"

text \<open>
  \<^verbatim>\<open>discord.utils.get(iterable, attr=value)\<close> with one keyword: the first element
  whose attribute equals the value, \<^verbatim>\<open>None\<close> when there is none.
\<close>

primrec utils_get :: "('a \<Rightarrow> 'b) \<Rightarrow> 'b \<Rightarrow> 'a list \<Rightarrow> 'a option" where
  "utils_get attr v [] = None"
| "utils_get attr v (x # xs) = (if attr x = v then Some x else utils_get attr v xs)"

section \<open>The bot object and its cached references (\<^verbatim>\<open>src/utils.py\<close>)\<close>

text \<open>
  The eight private attributes \<^verbatim>\<open>_css_guild\<close>, \<^verbatim>\<open>_committee_role\<close>, ... of
  \<^verbatim>\<open>TeXBot\<close> are the fields \<open>slot_css_guild\<close>, \<open>slot_committee_role\<close>, ... (an
  Isabelle name cannot start with an underscore). \<open>guilds\<close> is the library's list
  of connected guilds.
\<close>

record TeXBot =
  slot_css_guild :: "guild option"
  slot_committee_role :: "role option"
  slot_guest_role :: "role option"
  slot_member_role :: "role option"
  slot_archivist_role :: "role option"
  slot_roles_channel :: "text_channel option"
  slot_general_channel :: "text_channel option"
  slot_welcome_channel :: "text_channel option"
  guilds :: "guild list"

text \<open>\<^verbatim>\<open>TeXBot.__init__\<close>: every slot starts as \<^verbatim>\<open>None\<close>.\<close>

definition TeXBot_init :: "guild list \<Rightarrow> TeXBot" where
  "TeXBot_init gs =
     \<lparr> slot_css_guild = None,
       slot_committee_role = None,
       slot_guest_role = None,
       slot_member_role = None,
       slot_archivist_role = None,
       slot_roles_channel = None,
       slot_general_channel = None,
       slot_welcome_channel = None,
       guilds = gs \<rparr>"

text \<open>The property \<^verbatim>\<open>css_guild\<close>. It reads the bot and never writes to it.\<close>

definition css_guild :: "settings \<Rightarrow> TeXBot \<Rightarrow> exn + guild" where
  "css_guild st b =
     (case slot_css_guild b of
        None \<Rightarrow> Inl (GuildDoesNotExist (DISCORD_GUILD_ID st))
      | Some g \<Rightarrow>
          (case utils_get guild_id (DISCORD_GUILD_ID st) (guilds b) of
             None \<Rightarrow> Inl (GuildDoesNotExist (DISCORD_GUILD_ID st))
           | Some _ \<Rightarrow> Inr g))"

text \<open>
  The role and channel properties. Each returns the value or the exception
  together with the bot after the call; a raised exception leaves the bot as it
  was, since the assignment to the slot has not happened yet. The condition is
  evaluated left to right: \<^verbatim>\<open>self.css_guild\<close> is read in the condition only when
  the slot holds an object, and again in the body.
\<close>

definition committee_role :: "settings \<Rightarrow> TeXBot \<Rightarrow> (exn + role option) \<times> TeXBot" where
  "committee_role st b =
     (let refetch =
        (case css_guild st b of
           Inl e \<Rightarrow> (Inl e, b)
         | Inr g \<Rightarrow>
             (let v = utils_get role_name ''Committee'' (roles g)
              in (Inr v, b\<lparr>slot_committee_role := v\<rparr>)))
      in case slot_committee_role b of
           None \<Rightarrow> refetch
         | Some r \<Rightarrow>
             (case css_guild st b of
                Inl e \<Rightarrow> (Inl e, b)
              | Inr g \<Rightarrow>
                  (case utils_get role_id (role_id r) (roles g) of
                     None \<Rightarrow> refetch
                   | Some _ \<Rightarrow> (Inr (Some r), b))))"

definition guest_role :: "settings \<Rightarrow> TeXBot \<Rightarrow> (exn + role option) \<times> TeXBot" where
  "guest_role st b =
     (let refetch =
        (case css_guild st b of
           Inl e \<Rightarrow> (Inl e, b)
         | Inr g \<Rightarrow>
             (let v = utils_get role_name ''Guest'' (roles g)
              in (Inr v, b\<lparr>slot_guest_role := v\<rparr>)))
      in case slot_guest_role b of
           None \<Rightarrow> refetch
         | Some r \<Rightarrow>
             (case css_guild st b of
                Inl e \<Rightarrow> (Inl e, b)
              | Inr g \<Rightarrow>
                  (case utils_get role_id (role_id r) (roles g) of
                     None \<Rightarrow> refetch
                   | Some _ \<Rightarrow> (Inr (Some r), b))))"

definition member_role :: "settings \<Rightarrow> TeXBot \<Rightarrow> (exn + role option) \<times> TeXBot" where
  "member_role st b =
     (let refetch =
        (case css_guild st b of
           Inl e \<Rightarrow> (Inl e, b)
         | Inr g \<Rightarrow>
             (let v = utils_get role_name ''Member'' (roles g)
              in (Inr v, b\<lparr>slot_member_role := v\<rparr>)))
      in case slot_member_role b of
           None \<Rightarrow> refetch
         | Some r \<Rightarrow>
             (case css_guild st b of
                Inl e \<Rightarrow> (Inl e, b)
              | Inr g \<Rightarrow>
                  (case utils_get role_id (role_id r) (roles g) of
                     None \<Rightarrow> refetch
                   | Some _ \<Rightarrow> (Inr (Some r), b))))"

definition archivist_role :: "settings \<Rightarrow> TeXBot \<Rightarrow> (exn + role option) \<times> TeXBot" where
  "archivist_role st b =
     (let refetch =
        (case css_guild st b of
           Inl e \<Rightarrow> (Inl e, b)
         | Inr g \<Rightarrow>
             (let v = utils_get role_name ''Archivist'' (roles g)
              in (Inr v, b\<lparr>slot_archivist_role := v\<rparr>)))
      in case slot_archivist_role b of
           None \<Rightarrow> refetch
         | Some r \<Rightarrow>
             (case css_guild st b of
                Inl e \<Rightarrow> (Inl e, b)
              | Inr g \<Rightarrow>
                  (case utils_get role_id (role_id r) (roles g) of
                     None \<Rightarrow> refetch
                   | Some _ \<Rightarrow> (Inr (Some r), b))))"

definition roles_channel :: "settings \<Rightarrow> TeXBot \<Rightarrow> (exn + text_channel option) \<times> TeXBot" where
  "roles_channel st b =
     (let refetch =
        (case css_guild st b of
           Inl e \<Rightarrow> (Inl e, b)
         | Inr g \<Rightarrow>
             (let v = utils_get channel_name ''roles'' (text_channels g)
              in (Inr v, b\<lparr>slot_roles_channel := v\<rparr>)))
      in case slot_roles_channel b of
           None \<Rightarrow> refetch
         | Some c \<Rightarrow>
             (case css_guild st b of
                Inl e \<Rightarrow> (Inl e, b)
              | Inr g \<Rightarrow>
                  (case utils_get channel_id (channel_id c) (text_channels g) of
                     None \<Rightarrow> refetch
                   | Some _ \<Rightarrow> (Inr (Some c), b))))"

definition general_channel :: "settings \<Rightarrow> TeXBot \<Rightarrow> (exn + text_channel option) \<times> TeXBot" where
  "general_channel st b =
     (let refetch =
        (case css_guild st b of
           Inl e \<Rightarrow> (Inl e, b)
         | Inr g \<Rightarrow>
             (let v = utils_get channel_name ''general'' (text_channels g)
              in (Inr v, b\<lparr>slot_general_channel := v\<rparr>)))
      in case slot_general_channel b of
           None \<Rightarrow> refetch
         | Some c \<Rightarrow>
             (case css_guild st b of
                Inl e \<Rightarrow> (Inl e, b)
              | Inr g \<Rightarrow>
                  (case utils_get channel_id (channel_id c) (text_channels g) of
                     None \<Rightarrow> refetch
                   | Some _ \<Rightarrow> (Inr (Some c), b))))"

text \<open>
  \<^verbatim>\<open>welcome_channel\<close> refetches with
  \<^verbatim>\<open>self.css_guild.rules_channel or discord.utils.get(..., name="welcome")\<close>:
  a channel object is truthy, so \<^verbatim>\<open>or\<close> takes the rules channel whenever it is
  not \<^verbatim>\<open>None\<close>.
\<close>

definition welcome_channel :: "settings \<Rightarrow> TeXBot \<Rightarrow> (exn + text_channel option) \<times> TeXBot" where
  "welcome_channel st b =
     (let refetch =
        (case css_guild st b of
           Inl e \<Rightarrow> (Inl e, b)
         | Inr g \<Rightarrow>
             (let v = (case rules_channel g of
                         Some c \<Rightarrow> Some c
                       | None \<Rightarrow> utils_get channel_name ''welcome'' (text_channels g))
              in (Inr v, b\<lparr>slot_welcome_channel := v\<rparr>)))
      in case slot_welcome_channel b of
           None \<Rightarrow> refetch
         | Some c \<Rightarrow>
             (case css_guild st b of
                Inl e \<Rightarrow> (Inl e, b)
              | Inr g \<Rightarrow>
                  (case utils_get channel_id (channel_id c) (text_channels g) of
                     None \<Rightarrow> refetch
                   | Some _ \<Rightarrow> (Inr (Some c), b))))"

section \<open>Formatting and the invitation link (\<^verbatim>\<open>src/utils.py\<close>)\<close>

text \<open>
  A Python \<^verbatim>\<open>float\<close> is a finite double, an infinity or a NaN. A finite double is
  represented by its exact value, a rational number. \<^verbatim>\<open>==\<close> is false whenever a
  NaN takes part. \<^verbatim>\<open>value % 1\<close> is a NaN for an infinity and a NaN; for a finite
  value it is the fractional part \<open>q - \<lfloor>q\<rfloor>\<close>, which the double arithmetic may
  round, but never to or from zero, and \<^verbatim>\<open>amount_of_time_formatter\<close> only
  compares it with zero.
\<close>

datatype pyfloat = Finite rat | PosInf | NegInf | NaN

fun float_eq :: "pyfloat \<Rightarrow> pyfloat \<Rightarrow> bool" where
  "float_eq (Finite p) (Finite q) = (p = q)"
| "float_eq PosInf PosInf = True"
| "float_eq NegInf NegInf = True"
| "float_eq _ _ = False"

fun float_mod_1 :: "pyfloat \<Rightarrow> pyfloat" where
  "float_mod_1 (Finite q) = Finite (q - of_int \<lfloor>q\<rfloor>)"
| "float_mod_1 _ = NaN"

text \<open>
  \<^verbatim>\<open>amount_of_time_formatter\<close>. The two conversions of the f-strings belong to
  the language and are parameters: \<open>format_default\<close> is \<^verbatim>\<open>f"{value}"\<close> and
  \<open>format_3\<close> is \<^verbatim>\<open>f"{value:.3}"\<close>.
\<close>

definition amount_of_time_formatter ::
  "(pyfloat \<Rightarrow> string) \<Rightarrow> (pyfloat \<Rightarrow> string) \<Rightarrow> pyfloat \<Rightarrow> string \<Rightarrow> string" where
  "amount_of_time_formatter format_default format_3 value time_scale =
     (if float_eq value (Finite 1) then time_scale
      else if float_eq (float_mod_1 value) (Finite 0)
        then format_default value @ '' '' @ time_scale @ ''s''
      else format_3 value @ '' '' @ time_scale @ ''s'')"

text \<open>
  The keyword arguments of \<^verbatim>\<open>discord.Permissions(...)\<close> in \<^verbatim>\<open>get_oauth_url\<close>, in
  the order of the source.
\<close>

definition oauth_permissions :: "(string \<times> bool) list" where
  "oauth_permissions =
     [(''manage_roles'', True),
      (''read_messages'', True),
      (''send_messages'', True),
      (''manage_messages'', True),
      (''embed_links'', True),
      (''read_message_history'', True),
      (''mention_everyone'', True),
      (''add_reactions'', True),
      (''use_slash_commands'', True),
      (''kick_members'', True),
      (''manage_channels'', True)]"

text \<open>
  \<^verbatim>\<open>get_oauth_url\<close>. The library function \<^verbatim>\<open>discord.utils.oauth_url\<close> is the
  parameter \<open>oauth_url\<close>, applied to the client id, the permissions, the id of
  the guild object, the set of scopes and \<^verbatim>\<open>disable_guild_select\<close>.
\<close>

definition get_oauth_url ::
  "(pyval \<Rightarrow> (string \<times> bool) list \<Rightarrow> int \<Rightarrow> string set \<Rightarrow> bool \<Rightarrow> string) \<Rightarrow> settings \<Rightarrow> exn + string" where
  "get_oauth_url oauth_url st =
     (if \<not> truthy (DISCORD_BOT_APPLICATION_ID st)
      then Inl (ImproperlyConfigured
        ''DISCORD_BOT_APPLICATION_ID must be provided in order to use the get_oauth_url() utility function'')
      else Inr (oauth_url (DISCORD_BOT_APPLICATION_ID st) oauth_permissions
                  (DISCORD_GUILD_ID st) {''bot'', ''applications.commands''} True))"

section \<open>Error replies and captured errors (\<^verbatim>\<open>src/cogs/_utils.py\<close>)\<close>

text \<open>
  What the cog code acts on besides its arguments: the bot, the replies sent
  with \<^verbatim>\<open>ctx.respond\<close> (text and the \<^verbatim>\<open>ephemeral\<close> flag), the records written
  through \<^verbatim>\<open>logging\<close> (level and text), and whether the bot has been closed.
\<close>

record world =
  bot :: TeXBot
  responses :: "(string \<times> bool) list"
  log :: "(string \<times> string) list"
  closed :: bool

text \<open>
  The command of an application context: the \<^verbatim>\<open>__name__\<close> of its callback when
  the command has the attribute \<^verbatim>\<open>callback\<close>, and its qualified name.
\<close>

record command =
  callback_name :: "string option"
  qualified_name :: string

datatype logging_message = LogStr string | LogExn exn

definition ERROR_ACTIVITIES :: "(string \<times> string) list" where
  "ERROR_ACTIVITIES =
     [(''ping'', ''reply to ping''),
      (''write_roles'', ''send messages''),
      (''edit_message'', ''edit the message''),
      (''induct'', ''induct user''),
      (''silent_induct'', ''silently induct user''),
      (''non_silent_induct'', ''induct user and send welcome message''),
      (''make_member'', ''make you a member''),
      (''remind_me'', ''remind you''),
      (''channel_stats'', ''display channel statistics''),
      (''server_stats'', ''display whole server statistics''),
      (''user_stats'', ''display your statistics''),
      (''left_member_stats'', ''display statistics about the members that have left the server''),
      (''archive'', ''archive the selected category''),
      (''ensure_members_inducted'', ''ensure all members are inducted'')]"

text \<open>
  \<^verbatim>\<open>str.strip()\<close> removes the white space at both ends; below code point 256
  the white space characters are 9 to 13, 28 to 32, 133 and 160.
  \<^verbatim>\<open>str.rstrip(chars)\<close> removes the trailing characters that occur in \<open>chars\<close>.
\<close>

definition is_space :: "char \<Rightarrow> bool" where
  "is_space c = ((of_char c :: nat) \<in> {9, 10, 11, 12, 13, 28, 29, 30, 31, 32, 133, 160})"

definition py_strip :: "string \<Rightarrow> string" where
  "py_strip s = rev (dropWhile is_space (rev (dropWhile is_space s)))"

definition py_rstrip :: "string \<Rightarrow> string \<Rightarrow> string" where
  "py_rstrip chars s = rev (dropWhile (\<lambda>c. c \<in> set chars) (rev s))"

text \<open>
  The regular expression \<^verbatim>\<open><([@&#]?|(@[&#])?)\d+>\<close> of \<^verbatim>\<open>send_error\<close>. Below code
  point 256 \<^verbatim>\<open>\d\<close> matches the ten ASCII digits. \<open>match_mention s\<close> tries to
  match at the start of \<open>s\<close> and returns what follows the match. The
  alternatives of the group are tried in the order of the backtracking matcher:
  the first alternative with its character, the first alternative empty, the
  second alternative with its two characters, the second alternative empty.
  \<^verbatim>\<open>\d+\<close> is greedy; giving a digit back would leave a digit where \<^verbatim>\<open>>\<close> is
  required, so only the longest run of digits is tried.
\<close>

definition is_digit :: "char \<Rightarrow> bool" where
  "is_digit c = (c \<in> set ''0123456789'')"

definition match_digits_gt :: "string \<Rightarrow> string option" where
  "match_digits_gt s =
     (case dropWhile is_digit s of
        [] \<Rightarrow> None
      | c # rest \<Rightarrow> if takeWhile is_digit s \<noteq> [] \<and> c = CHR ''>'' then Some rest else None)"

definition group_alternatives :: "string \<Rightarrow> string list" where
  "group_alternatives s =
     (case s of c # r \<Rightarrow> if c \<in> set ''@&#'' then [r] else [] | [] \<Rightarrow> [])
     @ [s]
     @ (case s of
          a # c # r \<Rightarrow> if a = CHR ''@'' \<and> c \<in> set ''&#'' then [r] else []
        | _ \<Rightarrow> [])
     @ [s]"

fun first_match :: "('a \<Rightarrow> 'b option) \<Rightarrow> 'a list \<Rightarrow> 'b option" where
  "first_match f [] = None"
| "first_match f (x # xs) = (case f x of Some y \<Rightarrow> Some y | None \<Rightarrow> first_match f xs)"

definition match_mention :: "string \<Rightarrow> string option" where
  "match_mention s =
     (case s of
        [] \<Rightarrow> None
      | c # r \<Rightarrow> if c = CHR ''<'' then first_match match_digits_gt (group_alternatives r) else None)"

text \<open>
  \<^verbatim>\<open>re.sub(pattern, lambda match: f"`{match.group(0)}`", s)\<close>: the string is
  scanned from the left; where the pattern matches, the matched text is put
  between two backticks and the scan goes on after the match; elsewhere the
  character is copied. The pattern never matches the empty string.
\<close>

function re_sub_mentions :: "string \<Rightarrow> string" where
  "re_sub_mentions [] = []"
| "re_sub_mentions (c # cs) =
     (case match_mention (c # cs) of
        Some rest \<Rightarrow>
          ''`'' @ take (length (c # cs) - length rest) (c # cs) @ ''`'' @ re_sub_mentions rest
      | None \<Rightarrow> c # re_sub_mentions cs)"
  by pat_completeness auto
termination
proof (relation "measure length")
  show "wf (measure length)" by simp
next
  fix c :: char and cs rest :: string
  assume m: "match_mention (c # cs) = Some rest"
  have dg: "length y < length x" if "match_digits_gt x = Some y" for x y
  proof -
    from that obtain d where "dropWhile is_digit x = d # y"
      by (auto simp: match_digits_gt_def split: list.splits if_splits)
    then have "length (dropWhile is_digit x) = Suc (length y)" by simp
    moreover have "length (dropWhile is_digit x) \<le> length x" by (rule length_dropWhile_le)
    ultimately show ?thesis by simp
  qed
  have fm: "\<exists>x \<in> set xs. match_digits_gt x = Some y"
    if "first_match match_digits_gt xs = Some y" for xs y
    using that by (induction xs) (auto split: option.splits)
  have ga: "length x \<le> length r" if "x \<in> set (group_alternatives r)" for x r
    using that by (auto simp: group_alternatives_def split: list.splits if_splits)
  from m have "first_match match_digits_gt (group_alternatives cs) = Some rest"
    by (simp add: match_mention_def split: if_splits)
  from fm[OF this] obtain x where "x \<in> set (group_alternatives cs)" "match_digits_gt x = Some rest"
    by blast
  with dg ga have "length rest < length cs" by fastforce
  then show "(rest, c # cs) \<in> measure length" by simp
next
  fix c :: char and cs :: string
  show "(cs, c # cs) \<in> measure length" by simp
qed

text \<open>
  \<^verbatim>\<open>TeXBotCog.send_error\<close>. The class \<^verbatim>\<open>TeXBot\<close> that this module imports comes
  from the package \<^verbatim>\<open>utils\<close>, whose module \<^verbatim>\<open>tex_bot\<close> is not part of the
  sources; \<^verbatim>\<open>await self.bot.committee_role\<close> is therefore the parameter
  \<open>committee_role_of\<close>, which yields a role, \<^verbatim>\<open>None\<close> or an exception and the
  bot after the call. \<open>str_of\<close> is \<^verbatim>\<open>str\<close> on exceptions, used by the
  \<^verbatim>\<open>%s\<close> of the logging call. The function returns \<^verbatim>\<open>None\<close> or raises.
\<close>

fun logging_message_truthy :: "logging_message \<Rightarrow> bool" where
  "logging_message_truthy (LogStr s) = (s \<noteq> [])"
| "logging_message_truthy (LogExn e) = True"

fun logging_message_str :: "(exn \<Rightarrow> string) \<Rightarrow> logging_message \<Rightarrow> string" where
  "logging_message_str str_of (LogStr s) = s"
| "logging_message_str str_of (LogExn e) = str_of e"

definition startswith_underscore :: "string \<Rightarrow> bool" where
  "startswith_underscore s = (case s of [] \<Rightarrow> False | c # _ \<Rightarrow> c = CHR ''_'')"

definition command_name_of :: "command \<Rightarrow> string" where
  "command_name_of cmd =
     (case callback_name cmd of
        Some n \<Rightarrow> if \<not> startswith_underscore n then n else qualified_name cmd
      | None \<Rightarrow> qualified_name cmd)"

definition send_error ::
  "(TeXBot \<Rightarrow> (exn + role option) \<times> TeXBot) \<Rightarrow> (exn \<Rightarrow> string) \<Rightarrow> command \<Rightarrow>
   string option \<Rightarrow> string option \<Rightarrow> logging_message option \<Rightarrow> world \<Rightarrow> (exn + unit) \<times> world" where
  "send_error committee_role_of str_of cmd error_code message logging_message w =
     (let construct_error_message0 = '':warning:There was an error'';
          construct_logging_error_message0 = [];
          error_code_set = (case error_code of None \<Rightarrow> False | Some ec \<Rightarrow> ec \<noteq> []);
          looked_up = (if error_code_set then committee_role_of (bot w) else (Inr None, bot w))
      in case looked_up of
           (Inl e, b1) \<Rightarrow> (Inl e, w\<lparr>bot := b1\<rparr>)
         | (Inr committee_role_value, b1) \<Rightarrow>
            (let committee_mention =
                   (case committee_role_value of None \<Rightarrow> ''committee'' | Some r \<Rightarrow> role_mention r);
                 construct_error_message1 =
                   (if error_code_set
                    then ''**Contact a '' @ committee_mention
                         @ '' member, referencing error code: '' @ the error_code @ ''**''
                         @ [CHR 0x0A] @ construct_error_message0
                    else construct_error_message0);
                 construct_logging_error_message1 =
                   (if error_code_set then construct_logging_error_message0 @ the error_code
                    else construct_logging_error_message0);
                 command_name = command_name_of cmd;
                 construct_error_message2 =
                   (case map_of ERROR_ACTIVITIES command_name of
                      Some activity \<Rightarrow> construct_error_message1 @ '' when trying to '' @ activity
                    | None \<Rightarrow> construct_error_message1);
                 construct_logging_error_message2 =
                   (if construct_logging_error_message1 \<noteq> []
                    then construct_logging_error_message1 @ '' ''
                    else construct_logging_error_message1);
                 construct_logging_error_message3 =
                   construct_logging_error_message2 @ ''('' @ command_name @ '')'';
                 message_set = (case message of None \<Rightarrow> False | Some m \<Rightarrow> m \<noteq> []);
                 construct_error_message3 =
                   (if message_set then construct_error_message2 @ '':''
                    else construct_error_message2 @ ''.'');
                 construct_error_message4 = construct_error_message3 @ '':warning:'';
                 construct_error_message5 =
                   (if message_set
                    then construct_error_message4 @ [CHR 0x0A] @ ''`''
                         @ re_sub_mentions (py_strip (the message)) @ ''`''
                    else construct_error_message4);
                 w1 = w\<lparr>bot := b1, responses := responses w @ [(construct_error_message5, True)]\<rparr>
             in case logging_message of
                  None \<Rightarrow> (Inr (), w1)
                | Some lm \<Rightarrow>
                    if logging_message_truthy lm
                    then (let construct_logging_error_message4 =
                                (if construct_logging_error_message3 \<noteq> []
                                 then construct_logging_error_message3 @ '' ''
                                 else construct_logging_error_message3)
                          in (Inr (),
                              w1\<lparr>log := log w1 @
                                 [(''ERROR'',
                                   construct_logging_error_message4 @ logging_message_str str_of lm)]\<rparr>))
                    else (Inr (), w1)))"

text \<open>
  \<^verbatim>\<open>capture_error(func, error_type, close_func)\<close> returns \<^verbatim>\<open>wrapper\<close>; the model
  is the wrapper applied to \<^verbatim>\<open>self\<close> and a state, \<open>func self\<close> standing for
  \<^verbatim>\<open>func(self, *args, **kwargs)\<close> with its arguments fixed. \<open>bot_close\<close> is the
  library coroutine \<^verbatim>\<open>self.bot.close()\<close>. Every callee may return or raise.
  The wrapper returns \<open>Some v\<close> for the value \<open>v\<close> of \<open>func\<close> and \<open>None\<close> for
  its own \<^verbatim>\<open>return None\<close>.

  \<^verbatim>\<open>self\<close> is an instance of \<^verbatim>\<open>TeXBotCog\<close>, another object that has the attribute
  \<^verbatim>\<open>__name__\<close>, or an object without it; for the last, reading \<^verbatim>\<open>self.__name__\<close>
  in the message of the \<^verbatim>\<open>TypeError\<close> raises \<^verbatim>\<open>AttributeError\<close>. \<open>repr_of\<close>
  is \<^verbatim>\<open>repr\<close> on strings.
\<close>

datatype pyobj = TeXBotCog_instance | Named_object string | Plain_object

definition capture_error ::
  "('s \<Rightarrow> (exn + unit) \<times> 's) \<Rightarrow> (string \<Rightarrow> string) \<Rightarrow>
   (pyobj \<Rightarrow> 's \<Rightarrow> (exn + 'a) \<times> 's) \<Rightarrow> exn_type \<Rightarrow> (exn \<Rightarrow> 's \<Rightarrow> (exn + unit) \<times> 's) \<Rightarrow>
   pyobj \<Rightarrow> 's \<Rightarrow> (exn + 'a option) \<times> 's" where
  "capture_error bot_close repr_of func error_type close_func self s =
     (case self of
        Named_object n \<Rightarrow>
          (Inl (TypeError (''Parameter '' @ repr_of n
                  @ '' of any 'capture_error' decorator must be an instance of ''
                  @ repr_of ''TeXBotCog'' @ ''/one of its subclasses.'')), s)
      | Plain_object \<Rightarrow> (Inl (AttributeError ''__name__''), s)
      | TeXBotCog_instance \<Rightarrow>
          (case func self s of
             (Inr v, s1) \<Rightarrow> (Inr (Some v), s1)
           | (Inl error, s1) \<Rightarrow>
               if error_type error
               then (case close_func error s1 of
                       (Inl e2, s2) \<Rightarrow> (Inl e2, s2)
                     | (Inr u, s2) \<Rightarrow>
                         (case bot_close s2 of
                            (Inl e3, s3) \<Rightarrow> (Inl e3, s3)
                          | (Inr u', s3) \<Rightarrow> (Inr None, s3)))
               else (Inl error, s1)))"

text \<open>
  The two closing functions write to the log and return \<^verbatim>\<open>None\<close>. The library
  coroutine \<^verbatim>\<open>Bot.close\<close> is modelled by the flag it leaves behind.
\<close>

definition guild_does_not_exist_error_close_func ::
  "(exn \<Rightarrow> string) \<Rightarrow> exn \<Rightarrow> world \<Rightarrow> (exn + unit) \<times> world" where
  "guild_does_not_exist_error_close_func str_of error w =
     (Inr (), w\<lparr>log := log w @ [(''CRITICAL'', py_rstrip ''.:'' (str_of error))]\<rparr>)"

definition strike_tracking_error_close_func ::
  "(exn \<Rightarrow> string) \<Rightarrow> exn \<Rightarrow> world \<Rightarrow> (exn + unit) \<times> world" where
  "strike_tracking_error_close_func str_of error w =
     (case guild_does_not_exist_error_close_func str_of error w of
        (Inl e, w1) \<Rightarrow> (Inl e, w1)
      | (Inr u, w1) \<Rightarrow>
          (Inr (), w1\<lparr>log := log w1 @
             [(''WARNING'', ''Critical errors are likely to lead to untracked moderation actions'')]\<rparr>))"

definition Bot_close :: "world \<Rightarrow> (exn + unit) \<times> world" where
  "Bot_close w = (Inr (), w\<lparr>closed := True\<rparr>)"

definition capture_guild_does_not_exist_error ::
  "(string \<Rightarrow> string) \<Rightarrow> (exn \<Rightarrow> string) \<Rightarrow> (pyobj \<Rightarrow> world \<Rightarrow> (exn + 'a) \<times> world) \<Rightarrow>
   pyobj \<Rightarrow> world \<Rightarrow> (exn + 'a option) \<times> world" where
  "capture_guild_does_not_exist_error repr_of str_of func =
     capture_error Bot_close repr_of func GuildDoesNotExist_type
       (guild_does_not_exist_error_close_func str_of)"

definition capture_strike_tracking_error ::
  "(string \<Rightarrow> string) \<Rightarrow> (exn \<Rightarrow> string) \<Rightarrow> (pyobj \<Rightarrow> world \<Rightarrow> (exn + 'a) \<times> world) \<Rightarrow>
   pyobj \<Rightarrow> world \<Rightarrow> (exn + 'a option) \<times> world" where
  "capture_strike_tracking_error repr_of str_of func =
     capture_error Bot_close repr_of func StrikeTrackingError_type
       (strike_tracking_error_close_func str_of)"

section \<open>The cached references as a list\<close>

text \<open>
  The values of the attributes that \<^verbatim>\<open>TeXBot.__init__\<close> assigns, in the order of
  the assignments. No other method of the class assigns an attribute that is
  not in this list.
\<close>

datatype cached = CachedGuild guild | CachedRole role | CachedChannel text_channel

definition cache_slots :: "TeXBot \<Rightarrow> cached option list" where
  "cache_slots b =
     [map_option CachedGuild (slot_css_guild b),
      map_option CachedRole (slot_committee_role b),
      map_option CachedRole (slot_guest_role b),
      map_option CachedRole (slot_member_role b),
      map_option CachedRole (slot_archivist_role b),
      map_option CachedChannel (slot_roles_channel b),
      map_option CachedChannel (slot_general_channel b),
      map_option CachedChannel (slot_welcome_channel b)]"

fun is_guild_ref :: "cached option \<Rightarrow> bool" where
  "is_guild_ref (Some (CachedGuild _)) = True"
| "is_guild_ref _ = False"

fun is_role_ref :: "cached option \<Rightarrow> bool" where
  "is_role_ref (Some (CachedRole _)) = True"
| "is_role_ref _ = False"

fun is_channel_ref :: "cached option \<Rightarrow> bool" where
  "is_channel_ref (Some (CachedChannel _)) = True"
| "is_channel_ref _ = False"

section \<open>What the client library and the Discord client provide\<close>

text \<open>
  The library builds \<^verbatim>\<open>Guild.text_channels\<close> and \<^verbatim>\<open>Guild.rules_channel\<close> from one
  table of the guild's channels: the rules channel, when it is a text channel as
  its declared type says, is one of the text channels. The record \<open>guild\<close>
  keeps the two attributes apart, so the relation is a predicate on guilds.
\<close>

definition rules_channel_listed :: "guild \<Rightarrow> bool" where
  "rules_channel_listed g =
     (case rules_channel g of None \<Rightarrow> True | Some c \<Rightarrow> c \<in> set (text_channels g))"


section \<open>Objects for the concrete instances\<close>

text \<open>
  Names for the settings, roles, channels, guilds, command and state at which
  the theorems below are instantiated.
\<close>

abbreviation settings_guild_1 :: settings where
  "settings_guild_1 \<equiv> \<lparr>DISCORD_BOT_APPLICATION_ID = PyNone, DISCORD_GUILD_ID = 1\<rparr>"

abbreviation committee_5 :: role where
  "committee_5 \<equiv> \<lparr>role_id = 5, role_name = ''Committee'', role_mention = ''<@&5>''\<rparr>"

abbreviation general_9 :: text_channel where
  "general_9 \<equiv> \<lparr>channel_id = 9, channel_name = ''general''\<rparr>"

abbreviation rules_7 :: text_channel where
  "rules_7 \<equiv> \<lparr>channel_id = 7, channel_name = ''rules''\<rparr>"

abbreviation welcome_8 :: text_channel where
  "welcome_8 \<equiv> \<lparr>channel_id = 8, channel_name = ''welcome''\<rparr>"

abbreviation guild_without_objects :: guild where
  "guild_without_objects \<equiv> \<lparr>guild_id = 1, roles = [], text_channels = [], rules_channel = None\<rparr>"

abbreviation guild_with_committee :: guild where
  "guild_with_committee \<equiv> \<lparr>guild_id = 1, roles = [committee_5], text_channels = [], rules_channel = None\<rparr>"

abbreviation guild_with_committee_and_general :: guild where
  "guild_with_committee_and_general \<equiv> \<lparr>guild_id = 1, roles = [committee_5], text_channels = [general_9], rules_channel = None\<rparr>"

abbreviation guild_with_rules_channel :: guild where
  "guild_with_rules_channel \<equiv>
     \<lparr>guild_id = 1, roles = [], text_channels = [rules_7], rules_channel = Some rules_7\<rparr>"

abbreviation guild_with_welcome :: guild where
  "guild_with_welcome \<equiv> \<lparr>guild_id = 1, roles = [], text_channels = [welcome_8], rules_channel = None\<rparr>"

abbreviation connected_bot :: "guild \<Rightarrow> TeXBot" where
  "connected_bot g \<equiv> (TeXBot_init [g])\<lparr>slot_css_guild := Some g\<rparr>"

abbreviation ping_command :: command where
  "ping_command \<equiv> \<lparr>callback_name = Some ''ping'', qualified_name = ''ping''\<rparr>"

abbreviation idle_world :: world where
  "idle_world \<equiv> \<lparr>bot = TeXBot_init [], responses = [], log = [], closed = False\<rparr>"

section \<open>Facts about the library lookup\<close>

lemma utils_get_find: "utils_get attr v xs = find (\<lambda>x. attr x = v) xs"
  by (induction xs) simp_all

lemma utils_get_None_iff: "utils_get attr v xs = None \<longleftrightarrow> v \<notin> attr ` set xs"
  by (induction xs) auto

lemma utils_get_Some_mem: "utils_get attr v xs = Some x \<Longrightarrow> v \<in> attr ` set xs"
  by (induction xs) (auto split: if_splits)

lemma find_SomeD: "find P xs = Some x \<Longrightarrow> x \<in> set xs \<and> P x"
  by (induction xs) (auto split: if_splits)

section \<open>The guild accessor\<close>

lemma css_guild_Inr_iff:
  "css_guild st b = Inr g \<longleftrightarrow>
     slot_css_guild b = Some g \<and> DISCORD_GUILD_ID st \<in> guild_id ` set (guilds b)"
  by (auto simp: css_guild_def utils_get_None_iff split: option.splits dest: utils_get_Some_mem)

lemma css_guild_Inl_iff:
  "css_guild st b = Inl e \<longleftrightarrow>
     e = GuildDoesNotExist (DISCORD_GUILD_ID st) \<and>
     (slot_css_guild b = None \<or> DISCORD_GUILD_ID st \<notin> guild_id ` set (guilds b))"
  by (auto simp: css_guild_def utils_get_None_iff split: option.splits dest: utils_get_Some_mem)

lemma css_guild_frame:
  "css_guild st (b\<lparr>slot_committee_role := r\<rparr>) = css_guild st b"
  "css_guild st (b\<lparr>slot_guest_role := r\<rparr>) = css_guild st b"
  "css_guild st (b\<lparr>slot_member_role := r\<rparr>) = css_guild st b"
  "css_guild st (b\<lparr>slot_archivist_role := r\<rparr>) = css_guild st b"
  "css_guild st (b\<lparr>slot_roles_channel := c\<rparr>) = css_guild st b"
  "css_guild st (b\<lparr>slot_general_channel := c\<rparr>) = css_guild st b"
  "css_guild st (b\<lparr>slot_welcome_channel := c\<rparr>) = css_guild st b"
  by (simp_all add: css_guild_def split: option.splits)

section \<open>What each accessor computes\<close>

lemma committee_role_eq:
  assumes "css_guild st b = Inr g"
  shows "committee_role st b =
     (if slot_committee_role b = None \<or> role_id (the (slot_committee_role b)) \<notin> role_id ` set (roles g)
      then (Inr (find (\<lambda>r. role_name r = ''Committee'') (roles g)),
            b\<lparr>slot_committee_role := find (\<lambda>r. role_name r = ''Committee'') (roles g)\<rparr>)
      else (Inr (slot_committee_role b), b))"
  using assms
  by (auto simp: committee_role_def Let_def utils_get_None_iff utils_get_find[symmetric]
      split: option.splits dest: utils_get_Some_mem)

lemma committee_role_returns:
  assumes "committee_role st b = (Inr v, b')"
  shows "\<exists>g. css_guild st b = Inr g"
  using assms
  by (cases "css_guild st b") (auto simp: committee_role_def Let_def split: option.splits)

lemma committee_role_fresh:
  assumes "committee_role st b = (Inr (Some r), b')"
  shows "\<exists>g. css_guild st b' = Inr g \<and> role_id r \<in> role_id ` set (roles g)"
proof -
  from committee_role_returns[OF assms] obtain g where g: "css_guild st b = Inr g" ..
  from assms show ?thesis
    unfolding committee_role_eq[OF g] using g
    by (auto simp: css_guild_frame split: if_splits dest: find_SomeD)
qed

lemma guest_role_eq:
  assumes "css_guild st b = Inr g"
  shows "guest_role st b =
     (if slot_guest_role b = None \<or> role_id (the (slot_guest_role b)) \<notin> role_id ` set (roles g)
      then (Inr (find (\<lambda>r. role_name r = ''Guest'') (roles g)),
            b\<lparr>slot_guest_role := find (\<lambda>r. role_name r = ''Guest'') (roles g)\<rparr>)
      else (Inr (slot_guest_role b), b))"
  using assms
  by (auto simp: guest_role_def Let_def utils_get_None_iff utils_get_find[symmetric]
      split: option.splits dest: utils_get_Some_mem)

lemma guest_role_returns:
  assumes "guest_role st b = (Inr v, b')"
  shows "\<exists>g. css_guild st b = Inr g"
  using assms
  by (cases "css_guild st b") (auto simp: guest_role_def Let_def split: option.splits)

lemma guest_role_fresh:
  assumes "guest_role st b = (Inr (Some r), b')"
  shows "\<exists>g. css_guild st b' = Inr g \<and> role_id r \<in> role_id ` set (roles g)"
proof -
  from guest_role_returns[OF assms] obtain g where g: "css_guild st b = Inr g" ..
  from assms show ?thesis
    unfolding guest_role_eq[OF g] using g
    by (auto simp: css_guild_frame split: if_splits dest: find_SomeD)
qed

lemma member_role_eq:
  assumes "css_guild st b = Inr g"
  shows "member_role st b =
     (if slot_member_role b = None \<or> role_id (the (slot_member_role b)) \<notin> role_id ` set (roles g)
      then (Inr (find (\<lambda>r. role_name r = ''Member'') (roles g)),
            b\<lparr>slot_member_role := find (\<lambda>r. role_name r = ''Member'') (roles g)\<rparr>)
      else (Inr (slot_member_role b), b))"
  using assms
  by (auto simp: member_role_def Let_def utils_get_None_iff utils_get_find[symmetric]
      split: option.splits dest: utils_get_Some_mem)

lemma member_role_returns:
  assumes "member_role st b = (Inr v, b')"
  shows "\<exists>g. css_guild st b = Inr g"
  using assms
  by (cases "css_guild st b") (auto simp: member_role_def Let_def split: option.splits)

lemma member_role_fresh:
  assumes "member_role st b = (Inr (Some r), b')"
  shows "\<exists>g. css_guild st b' = Inr g \<and> role_id r \<in> role_id ` set (roles g)"
proof -
  from member_role_returns[OF assms] obtain g where g: "css_guild st b = Inr g" ..
  from assms show ?thesis
    unfolding member_role_eq[OF g] using g
    by (auto simp: css_guild_frame split: if_splits dest: find_SomeD)
qed

lemma archivist_role_eq:
  assumes "css_guild st b = Inr g"
  shows "archivist_role st b =
     (if slot_archivist_role b = None \<or> role_id (the (slot_archivist_role b)) \<notin> role_id ` set (roles g)
      then (Inr (find (\<lambda>r. role_name r = ''Archivist'') (roles g)),
            b\<lparr>slot_archivist_role := find (\<lambda>r. role_name r = ''Archivist'') (roles g)\<rparr>)
      else (Inr (slot_archivist_role b), b))"
  using assms
  by (auto simp: archivist_role_def Let_def utils_get_None_iff utils_get_find[symmetric]
      split: option.splits dest: utils_get_Some_mem)

lemma archivist_role_returns:
  assumes "archivist_role st b = (Inr v, b')"
  shows "\<exists>g. css_guild st b = Inr g"
  using assms
  by (cases "css_guild st b") (auto simp: archivist_role_def Let_def split: option.splits)

lemma archivist_role_fresh:
  assumes "archivist_role st b = (Inr (Some r), b')"
  shows "\<exists>g. css_guild st b' = Inr g \<and> role_id r \<in> role_id ` set (roles g)"
proof -
  from archivist_role_returns[OF assms] obtain g where g: "css_guild st b = Inr g" ..
  from assms show ?thesis
    unfolding archivist_role_eq[OF g] using g
    by (auto simp: css_guild_frame split: if_splits dest: find_SomeD)
qed

lemma roles_channel_eq:
  assumes "css_guild st b = Inr g"
  shows "roles_channel st b =
     (if slot_roles_channel b = None
         \<or> channel_id (the (slot_roles_channel b)) \<notin> channel_id ` set (text_channels g)
      then (Inr (find (\<lambda>c. channel_name c = ''roles'') (text_channels g)),
            b\<lparr>slot_roles_channel := find (\<lambda>c. channel_name c = ''roles'') (text_channels g)\<rparr>)
      else (Inr (slot_roles_channel b), b))"
  using assms
  by (auto simp: roles_channel_def Let_def utils_get_None_iff utils_get_find[symmetric]
      split: option.splits dest: utils_get_Some_mem)

lemma roles_channel_returns:
  assumes "roles_channel st b = (Inr v, b')"
  shows "\<exists>g. css_guild st b = Inr g"
  using assms
  by (cases "css_guild st b") (auto simp: roles_channel_def Let_def split: option.splits)

lemma roles_channel_fresh:
  assumes "roles_channel st b = (Inr (Some c), b')"
  shows "\<exists>g. css_guild st b' = Inr g \<and> channel_id c \<in> channel_id ` set (text_channels g)"
proof -
  from roles_channel_returns[OF assms] obtain g where g: "css_guild st b = Inr g" ..
  from assms show ?thesis
    unfolding roles_channel_eq[OF g] using g
    by (auto simp: css_guild_frame split: if_splits dest: find_SomeD)
qed

lemma general_channel_eq:
  assumes "css_guild st b = Inr g"
  shows "general_channel st b =
     (if slot_general_channel b = None
         \<or> channel_id (the (slot_general_channel b)) \<notin> channel_id ` set (text_channels g)
      then (Inr (find (\<lambda>c. channel_name c = ''general'') (text_channels g)),
            b\<lparr>slot_general_channel := find (\<lambda>c. channel_name c = ''general'') (text_channels g)\<rparr>)
      else (Inr (slot_general_channel b), b))"
  using assms
  by (auto simp: general_channel_def Let_def utils_get_None_iff utils_get_find[symmetric]
      split: option.splits dest: utils_get_Some_mem)

lemma general_channel_returns:
  assumes "general_channel st b = (Inr v, b')"
  shows "\<exists>g. css_guild st b = Inr g"
  using assms
  by (cases "css_guild st b") (auto simp: general_channel_def Let_def split: option.splits)

lemma general_channel_fresh:
  assumes "general_channel st b = (Inr (Some c), b')"
  shows "\<exists>g. css_guild st b' = Inr g \<and> channel_id c \<in> channel_id ` set (text_channels g)"
proof -
  from general_channel_returns[OF assms] obtain g where g: "css_guild st b = Inr g" ..
  from assms show ?thesis
    unfolding general_channel_eq[OF g] using g
    by (auto simp: css_guild_frame split: if_splits dest: find_SomeD)
qed

lemma welcome_channel_eq:
  assumes "css_guild st b = Inr g"
  shows "welcome_channel st b =
     (if slot_welcome_channel b = None
         \<or> channel_id (the (slot_welcome_channel b)) \<notin> channel_id ` set (text_channels g)
      then (Inr (case rules_channel g of
                   Some c \<Rightarrow> Some c
                 | None \<Rightarrow> find (\<lambda>c. channel_name c = ''welcome'') (text_channels g)),
            b\<lparr>slot_welcome_channel :=
                 (case rules_channel g of
                    Some c \<Rightarrow> Some c
                  | None \<Rightarrow> find (\<lambda>c. channel_name c = ''welcome'') (text_channels g))\<rparr>)
      else (Inr (slot_welcome_channel b), b))"
  using assms
  by (auto simp: welcome_channel_def Let_def utils_get_None_iff utils_get_find[symmetric]
      split: option.splits dest: utils_get_Some_mem)

lemma welcome_channel_returns:
  assumes "welcome_channel st b = (Inr v, b')"
  shows "\<exists>g. css_guild st b = Inr g"
  using assms
  by (cases "css_guild st b") (auto simp: welcome_channel_def Let_def split: option.splits)

lemma welcome_channel_fresh:
  assumes "welcome_channel st b = (Inr (Some c), b')"
  shows "\<exists>g. css_guild st b = Inr g \<and> css_guild st b' = Inr g \<and>
           (channel_id c \<in> channel_id ` set (text_channels g) \<or> rules_channel g = Some c)"
proof -
  from welcome_channel_returns[OF assms] obtain g where g: "css_guild st b = Inr g" ..
  from assms show ?thesis
    unfolding welcome_channel_eq[OF g] using g
    by (auto simp: css_guild_frame split: if_splits option.splits dest: find_SomeD)
qed

section \<open>Claims about the cached references\<close>

text \<open>
  Claim C1, as amended. \<^verbatim>\<open>css_guild\<close> does not refill its slot. It returns the
  guild held in the slot exactly when the slot is not empty and some connected
  guild has the configured id, and then the result is the held guild itself; it
  raises \<^verbatim>\<open>GuildDoesNotExist\<close> with the configured id exactly when the slot is
  empty or no connected guild has that id. The function only reads the bot, so
  no call changes the slot.
\<close>

theorem css_guild_cached_or_raises:
  "(css_guild st b = Inr g \<longleftrightarrow>
      slot_css_guild b = Some g \<and> (\<exists>c \<in> set (guilds b). guild_id c = DISCORD_GUILD_ID st))
   \<and> (css_guild st b = Inl e \<longleftrightarrow>
      e = GuildDoesNotExist (DISCORD_GUILD_ID st) \<and>
      (slot_css_guild b = None \<or> \<not> (\<exists>c \<in> set (guilds b). guild_id c = DISCORD_GUILD_ID st)))"
  unfolding css_guild_Inr_iff css_guild_Inl_iff image_iff by (intro conjI iffI; metis)

text \<open>
  The claim as first stated fails on a freshly constructed bot that is connected
  to the configured guild: the slot is empty, and the accessor raises instead of
  returning that guild.
\<close>

theorem css_guild_counterexample:
  "guild_id guild_without_objects
     = DISCORD_GUILD_ID settings_guild_1
   \<and> guild_without_objects
     \<in> set (guilds (TeXBot_init
          [guild_without_objects]))
   \<and> css_guild settings_guild_1
        (TeXBot_init [guild_without_objects])
      = Inl (GuildDoesNotExist 1)"
  by (simp add: css_guild_def TeXBot_init_def)

theorem css_guild_cached_or_raises_witness:
  "css_guild settings_guild_1
     (connected_bot guild_without_objects)
     = Inr guild_without_objects
   \<and> css_guild settings_guild_1
     ((TeXBot_init [])
        \<lparr>slot_css_guild := Some guild_without_objects\<rparr>)
     = Inl (GuildDoesNotExist 1)"
  using css_guild_cached_or_raises
     [of "settings_guild_1"
         "connected_bot guild_without_objects"
         "guild_without_objects"
         "GuildDoesNotExist 1"]
    css_guild_cached_or_raises
     [of "settings_guild_1"
         "(TeXBot_init [])
            \<lparr>slot_css_guild := Some guild_without_objects\<rparr>"
         "guild_without_objects"
         "GuildDoesNotExist 1"]
  by (simp add: TeXBot_init_def)

text \<open>
  Claim C3. Let the css guild be available. For each of \<^verbatim>\<open>committee_role\<close>,
  \<^verbatim>\<open>guest_role\<close>, \<^verbatim>\<open>member_role\<close>, \<^verbatim>\<open>archivist_role\<close>, \<^verbatim>\<open>roles_channel\<close> and
  \<^verbatim>\<open>general_channel\<close>: when the slot is empty or the id of the object in it
  does not occur among the guild's roles (text channels for the two channel
  accessors), the accessor looks up the first object with its fixed name,
  stores the result, which may be \<^verbatim>\<open>None\<close>, in the slot and returns it;
  otherwise it returns the object in the slot and leaves the bot as it was.
\<close>

theorem named_accessors_refresh:
  assumes "css_guild st b = Inr g"
  shows "(slot_committee_role b = None \<or> role_id (the (slot_committee_role b)) \<notin> role_id ` set (roles g) \<longrightarrow>
       committee_role st b =
         (Inr (find (\<lambda>r. role_name r = ''Committee'') (roles g)),
          b\<lparr>slot_committee_role := find (\<lambda>r. role_name r = ''Committee'') (roles g)\<rparr>))
     \<and> (\<not> (slot_committee_role b = None \<or> role_id (the (slot_committee_role b)) \<notin> role_id ` set (roles g)) \<longrightarrow>
       committee_role st b = (Inr (slot_committee_role b), b))
     \<and> (slot_guest_role b = None \<or> role_id (the (slot_guest_role b)) \<notin> role_id ` set (roles g) \<longrightarrow>
       guest_role st b =
         (Inr (find (\<lambda>r. role_name r = ''Guest'') (roles g)),
          b\<lparr>slot_guest_role := find (\<lambda>r. role_name r = ''Guest'') (roles g)\<rparr>))
     \<and> (\<not> (slot_guest_role b = None \<or> role_id (the (slot_guest_role b)) \<notin> role_id ` set (roles g)) \<longrightarrow>
       guest_role st b = (Inr (slot_guest_role b), b))
     \<and> (slot_member_role b = None \<or> role_id (the (slot_member_role b)) \<notin> role_id ` set (roles g) \<longrightarrow>
       member_role st b =
         (Inr (find (\<lambda>r. role_name r = ''Member'') (roles g)),
          b\<lparr>slot_member_role := find (\<lambda>r. role_name r = ''Member'') (roles g)\<rparr>))
     \<and> (\<not> (slot_member_role b = None \<or> role_id (the (slot_member_role b)) \<notin> role_id ` set (roles g)) \<longrightarrow>
       member_role st b = (Inr (slot_member_role b), b))
     \<and> (slot_archivist_role b = None \<or> role_id (the (slot_archivist_role b)) \<notin> role_id ` set (roles g) \<longrightarrow>
       archivist_role st b =
         (Inr (find (\<lambda>r. role_name r = ''Archivist'') (roles g)),
          b\<lparr>slot_archivist_role := find (\<lambda>r. role_name r = ''Archivist'') (roles g)\<rparr>))
     \<and> (\<not> (slot_archivist_role b = None \<or> role_id (the (slot_archivist_role b)) \<notin> role_id ` set (roles g)) \<longrightarrow>
       archivist_role st b = (Inr (slot_archivist_role b), b))
     \<and> (slot_roles_channel b = None \<or> channel_id (the (slot_roles_channel b)) \<notin> channel_id ` set (text_channels g) \<longrightarrow>
       roles_channel st b =
         (Inr (find (\<lambda>c. channel_name c = ''roles'') (text_channels g)),
          b\<lparr>slot_roles_channel := find (\<lambda>c. channel_name c = ''roles'') (text_channels g)\<rparr>))
     \<and> (\<not> (slot_roles_channel b = None \<or> channel_id (the (slot_roles_channel b)) \<notin> channel_id ` set (text_channels g)) \<longrightarrow>
       roles_channel st b = (Inr (slot_roles_channel b), b))
     \<and> (slot_general_channel b = None \<or> channel_id (the (slot_general_channel b)) \<notin> channel_id ` set (text_channels g) \<longrightarrow>
       general_channel st b =
         (Inr (find (\<lambda>c. channel_name c = ''general'') (text_channels g)),
          b\<lparr>slot_general_channel := find (\<lambda>c. channel_name c = ''general'') (text_channels g)\<rparr>))
     \<and> (\<not> (slot_general_channel b = None \<or> channel_id (the (slot_general_channel b)) \<notin> channel_id ` set (text_channels g)) \<longrightarrow>
       general_channel st b = (Inr (slot_general_channel b), b))"
  unfolding committee_role_eq[OF assms] guest_role_eq[OF assms] member_role_eq[OF assms]
    archivist_role_eq[OF assms] roles_channel_eq[OF assms] general_channel_eq[OF assms]
  by (intro conjI impI) (simp_all only: if_P if_not_P if_True if_False)

theorem named_accessors_refresh_witness:
  "css_guild settings_guild_1
     (connected_bot guild_with_committee_and_general)
     = Inr guild_with_committee_and_general
   \<and> committee_role settings_guild_1
     (connected_bot guild_with_committee_and_general)
     = (Inr (Some committee_5),
        (connected_bot guild_with_committee_and_general)\<lparr>slot_committee_role := Some committee_5\<rparr>)
   \<and> roles_channel settings_guild_1
     (connected_bot guild_with_committee_and_general)
     = (Inr None, (connected_bot guild_with_committee_and_general)\<lparr>slot_roles_channel := None\<rparr>)
   \<and> general_channel settings_guild_1
     ((connected_bot guild_with_committee_and_general)\<lparr>slot_general_channel := Some general_9\<rparr>)
     = (Inr (Some general_9), (connected_bot guild_with_committee_and_general)\<lparr>slot_general_channel := Some general_9\<rparr>)"
proof -
  have h: "css_guild settings_guild_1
     (connected_bot guild_with_committee_and_general)
     = Inr guild_with_committee_and_general"
    by (simp add: css_guild_def TeXBot_init_def)
  have h': "css_guild settings_guild_1
     ((connected_bot guild_with_committee_and_general)\<lparr>slot_general_channel := Some general_9\<rparr>)
     = Inr guild_with_committee_and_general"
    by (simp add: css_guild_def TeXBot_init_def)
  show ?thesis
    using h named_accessors_refresh[OF h] named_accessors_refresh[OF h']
    by (simp add: TeXBot_init_def)
qed

lemma welcome_channel_current:
  assumes "welcome_channel st b = (Inr (Some c), b')"
    and "\<And>g. css_guild st b = Inr g \<Longrightarrow> rules_channel_listed g"
  shows "\<exists>g. css_guild st b' = Inr g \<and> channel_id c \<in> channel_id ` set (text_channels g)"
proof -
  from welcome_channel_fresh[OF assms(1)] obtain g where g0: "css_guild st b = Inr g"
    and g: "css_guild st b' = Inr g"
    and d: "channel_id c \<in> channel_id ` set (text_channels g) \<or> rules_channel g = Some c"
    by blast
  from assms(2)[OF g0] have "rules_channel_listed g" .
  with d have "channel_id c \<in> channel_id ` set (text_channels g)"
    by (auto simp: rules_channel_listed_def)
  with g show ?thesis by blast
qed

text \<open>
  Claim C4. Let the rules channel of the css guild, when the guild has one, be
  one of the guild's text channels, as the client library provides. Whenever one
  of \<^verbatim>\<open>committee_role\<close>, \<^verbatim>\<open>guest_role\<close>, \<^verbatim>\<open>member_role\<close>, \<^verbatim>\<open>archivist_role\<close>,
  \<^verbatim>\<open>roles_channel\<close>, \<^verbatim>\<open>general_channel\<close> and \<^verbatim>\<open>welcome_channel\<close> returns an object,
  the css guild is available on the bot after the call and the id of the object
  occurs among the guild's roles (text channels for the channel accessors): an
  object that is no longer current is never returned. The condition on the rules
  channel is needed by \<^verbatim>\<open>welcome_channel\<close> only.
\<close>

theorem accessors_return_current:
  "(committee_role st b = (Inr (Some r), b') \<longrightarrow>
       (\<exists>g. css_guild st b' = Inr g \<and> role_id r \<in> role_id ` set (roles g)))
   \<and> (guest_role st b = (Inr (Some r), b') \<longrightarrow>
       (\<exists>g. css_guild st b' = Inr g \<and> role_id r \<in> role_id ` set (roles g)))
   \<and> (member_role st b = (Inr (Some r), b') \<longrightarrow>
       (\<exists>g. css_guild st b' = Inr g \<and> role_id r \<in> role_id ` set (roles g)))
   \<and> (archivist_role st b = (Inr (Some r), b') \<longrightarrow>
       (\<exists>g. css_guild st b' = Inr g \<and> role_id r \<in> role_id ` set (roles g)))
   \<and> (roles_channel st b = (Inr (Some c), b') \<longrightarrow>
       (\<exists>g. css_guild st b' = Inr g \<and> channel_id c \<in> channel_id ` set (text_channels g)))
   \<and> (general_channel st b = (Inr (Some c), b') \<longrightarrow>
       (\<exists>g. css_guild st b' = Inr g \<and> channel_id c \<in> channel_id ` set (text_channels g)))
   \<and> (welcome_channel st b = (Inr (Some c), b')
        \<and> (\<forall>g. css_guild st b = Inr g \<longrightarrow> rules_channel_listed g) \<longrightarrow>
       (\<exists>g. css_guild st b' = Inr g \<and> channel_id c \<in> channel_id ` set (text_channels g)))"
proof (intro conjI impI)
  assume "committee_role st b = (Inr (Some r), b')"
  then show "\<exists>g. css_guild st b' = Inr g \<and> role_id r \<in> role_id ` set (roles g)"
    by (rule committee_role_fresh)
next
  assume "guest_role st b = (Inr (Some r), b')"
  then show "\<exists>g. css_guild st b' = Inr g \<and> role_id r \<in> role_id ` set (roles g)"
    by (rule guest_role_fresh)
next
  assume "member_role st b = (Inr (Some r), b')"
  then show "\<exists>g. css_guild st b' = Inr g \<and> role_id r \<in> role_id ` set (roles g)"
    by (rule member_role_fresh)
next
  assume "archivist_role st b = (Inr (Some r), b')"
  then show "\<exists>g. css_guild st b' = Inr g \<and> role_id r \<in> role_id ` set (roles g)"
    by (rule archivist_role_fresh)
next
  assume "roles_channel st b = (Inr (Some c), b')"
  then show "\<exists>g. css_guild st b' = Inr g \<and> channel_id c \<in> channel_id ` set (text_channels g)"
    by (rule roles_channel_fresh)
next
  assume "general_channel st b = (Inr (Some c), b')"
  then show "\<exists>g. css_guild st b' = Inr g \<and> channel_id c \<in> channel_id ` set (text_channels g)"
    by (rule general_channel_fresh)
next
  assume a: "welcome_channel st b = (Inr (Some c), b')
      \<and> (\<forall>g. css_guild st b = Inr g \<longrightarrow> rules_channel_listed g)"
  then have w: "welcome_channel st b = (Inr (Some c), b')"
    and l: "\<And>g. css_guild st b = Inr g \<Longrightarrow> rules_channel_listed g"
    by simp_all
  from w l show "\<exists>g. css_guild st b' = Inr g \<and> channel_id c \<in> channel_id ` set (text_channels g)"
    by (rule welcome_channel_current)
qed

theorem accessors_return_current_witness:
  "committee_role settings_guild_1 (connected_bot guild_with_committee_and_general)
     = (Inr (Some committee_5), (connected_bot guild_with_committee_and_general)\<lparr>slot_committee_role := Some committee_5\<rparr>)
   \<and> welcome_channel settings_guild_1 (connected_bot guild_with_rules_channel)
     = (Inr (Some rules_7), (connected_bot guild_with_rules_channel)\<lparr>slot_welcome_channel := Some rules_7\<rparr>)
   \<and> rules_channel_listed guild_with_rules_channel
   \<and> (\<exists>g. css_guild settings_guild_1 ((connected_bot guild_with_committee_and_general)\<lparr>slot_committee_role := Some committee_5\<rparr>) = Inr g
      \<and> role_id committee_5 \<in> role_id ` set (roles g))
   \<and> (\<exists>g. css_guild settings_guild_1 ((connected_bot guild_with_rules_channel)\<lparr>slot_welcome_channel := Some rules_7\<rparr>) = Inr g
      \<and> channel_id rules_7 \<in> channel_id ` set (text_channels g))"
proof -
  have h: "committee_role settings_guild_1 (connected_bot guild_with_committee_and_general)
     = (Inr (Some committee_5), (connected_bot guild_with_committee_and_general)\<lparr>slot_committee_role := Some committee_5\<rparr>)"
    by (simp add: committee_role_def css_guild_def TeXBot_init_def Let_def)
  have k: "welcome_channel settings_guild_1 (connected_bot guild_with_rules_channel)
     = (Inr (Some rules_7), (connected_bot guild_with_rules_channel)\<lparr>slot_welcome_channel := Some rules_7\<rparr>)"
    by (simp add: welcome_channel_def css_guild_def TeXBot_init_def Let_def)
  have l: "rules_channel_listed guild_with_rules_channel"
    by (simp add: rules_channel_listed_def)
  have l': "\<forall>g. css_guild settings_guild_1 (connected_bot guild_with_rules_channel) = Inr g \<longrightarrow> rules_channel_listed g"
    by (simp add: css_guild_def TeXBot_init_def rules_channel_listed_def)
  have e1: "\<exists>g. css_guild settings_guild_1 ((connected_bot guild_with_committee_and_general)\<lparr>slot_committee_role := Some committee_5\<rparr>) = Inr g
      \<and> role_id committee_5 \<in> role_id ` set (roles g)"
    by (rule mp[OF accessors_return_current[of settings_guild_1 "(connected_bot guild_with_committee_and_general)" committee_5
          "(connected_bot guild_with_committee_and_general)\<lparr>slot_committee_role := Some committee_5\<rparr>" rules_7,
          THEN conjunct1] h])
  have e2: "\<exists>g. css_guild settings_guild_1 ((connected_bot guild_with_rules_channel)\<lparr>slot_welcome_channel := Some rules_7\<rparr>) = Inr g
      \<and> channel_id rules_7 \<in> channel_id ` set (text_channels g)"
    by (rule mp[OF accessors_return_current[of settings_guild_1 "(connected_bot guild_with_rules_channel)" committee_5
          "(connected_bot guild_with_rules_channel)\<lparr>slot_welcome_channel := Some rules_7\<rparr>" rules_7,
          THEN conjunct2, THEN conjunct2, THEN conjunct2, THEN conjunct2, THEN conjunct2,
          THEN conjunct2] conjI[OF k l']])
  show ?thesis
    by (intro conjI) (rule h k l e1 e2)+
qed

text \<open>
  Claim C5. Let the css guild be available. When the slot of the welcome channel
  is empty or the id of the channel in it does not occur among the guild's text
  channels, \<^verbatim>\<open>welcome_channel\<close> stores and returns the guild's rules channel when
  there is one, otherwise the first text channel named \<^verbatim>\<open>welcome\<close>, otherwise
  \<^verbatim>\<open>None\<close>; when the channel in the slot is still current, the accessor returns
  it and leaves the bot as it was.
\<close>

theorem welcome_channel_refresh:
  assumes "css_guild st b = Inr g"
  shows "(slot_welcome_channel b = None
          \<or> channel_id (the (slot_welcome_channel b)) \<notin> channel_id ` set (text_channels g) \<longrightarrow>
          (\<forall>c. rules_channel g = Some c \<longrightarrow>
             welcome_channel st b = (Inr (Some c), b\<lparr>slot_welcome_channel := Some c\<rparr>))
          \<and> (rules_channel g = None \<longrightarrow>
             welcome_channel st b =
               (Inr (find (\<lambda>c. channel_name c = ''welcome'') (text_channels g)),
                b\<lparr>slot_welcome_channel :=
                    find (\<lambda>c. channel_name c = ''welcome'') (text_channels g)\<rparr>)))
     \<and> (\<not> (slot_welcome_channel b = None
          \<or> channel_id (the (slot_welcome_channel b)) \<notin> channel_id ` set (text_channels g)) \<longrightarrow>
          welcome_channel st b = (Inr (slot_welcome_channel b), b))"
  unfolding welcome_channel_eq[OF assms]
  by (intro conjI impI allI) (simp_all only: if_P if_not_P if_True if_False option.case)

theorem welcome_channel_refresh_witness:
  "css_guild settings_guild_1
     (connected_bot guild_with_welcome)
     = Inr guild_with_welcome
   \<and> welcome_channel settings_guild_1
     (connected_bot guild_with_welcome)
     = (Inr (Some welcome_8),
        (connected_bot guild_with_welcome)\<lparr>slot_welcome_channel := Some welcome_8\<rparr>)
   \<and> welcome_channel settings_guild_1
     ((connected_bot guild_with_welcome)\<lparr>slot_welcome_channel := Some welcome_8\<rparr>)
     = (Inr (Some welcome_8),
        (connected_bot guild_with_welcome)\<lparr>slot_welcome_channel := Some welcome_8\<rparr>)"
proof -
  have h: "css_guild settings_guild_1
     (connected_bot guild_with_welcome)
     = Inr guild_with_welcome"
    by (simp add: css_guild_def TeXBot_init_def)
  have h': "css_guild settings_guild_1
     ((connected_bot guild_with_welcome)\<lparr>slot_welcome_channel := Some welcome_8\<rparr>)
     = Inr guild_with_welcome"
    by (simp add: css_guild_def TeXBot_init_def)
  show ?thesis
    using h welcome_channel_refresh[OF h] welcome_channel_refresh[OF h']
    by (simp add: TeXBot_init_def)
qed

subsection \<open>The number of cached references\<close>

lemma committee_role_frame:
  "snd (committee_role st b) = b\<lparr>slot_committee_role := slot_committee_role (snd (committee_role st b))\<rparr>"
  by (simp add: committee_role_def Let_def split: option.splits sum.splits)

lemma guest_role_frame:
  "snd (guest_role st b) = b\<lparr>slot_guest_role := slot_guest_role (snd (guest_role st b))\<rparr>"
  by (simp add: guest_role_def Let_def split: option.splits sum.splits)

lemma member_role_frame:
  "snd (member_role st b) = b\<lparr>slot_member_role := slot_member_role (snd (member_role st b))\<rparr>"
  by (simp add: member_role_def Let_def split: option.splits sum.splits)

lemma archivist_role_frame:
  "snd (archivist_role st b) = b\<lparr>slot_archivist_role := slot_archivist_role (snd (archivist_role st b))\<rparr>"
  by (simp add: archivist_role_def Let_def split: option.splits sum.splits)

lemma roles_channel_frame:
  "snd (roles_channel st b) = b\<lparr>slot_roles_channel := slot_roles_channel (snd (roles_channel st b))\<rparr>"
  by (simp add: roles_channel_def Let_def split: option.splits sum.splits)

lemma general_channel_frame:
  "snd (general_channel st b) = b\<lparr>slot_general_channel := slot_general_channel (snd (general_channel st b))\<rparr>"
  by (simp add: general_channel_def Let_def split: option.splits sum.splits)

lemma welcome_channel_frame:
  "snd (welcome_channel st b) = b\<lparr>slot_welcome_channel := slot_welcome_channel (snd (welcome_channel st b))\<rparr>"
  by (simp add: welcome_channel_def Let_def split: option.splits sum.splits)

lemma ref_kinds:
  "\<not> is_guild_ref (map_option CachedRole r)"
  "\<not> is_guild_ref (map_option CachedChannel c)"
  "\<not> is_role_ref (map_option CachedGuild g)"
  "\<not> is_role_ref (map_option CachedChannel c)"
  "\<not> is_channel_ref (map_option CachedGuild g)"
  "\<not> is_channel_ref (map_option CachedRole r)"
  by (cases r; cases c; cases g; simp)+

lemma length_filter_le_8:
  "length xs = 8 \<Longrightarrow> length (filter P xs) \<le> 12"
  using length_filter_le[of P xs] by simp

text \<open>
  Claim C6. The bot holds eight cached references, fewer than a dozen: one
  guild, four roles and three text channels. \<^verbatim>\<open>TeXBot.__init__\<close> sets each of
  them to \<^verbatim>\<open>None\<close>. Every accessor leaves the bot as it was except for its own
  slot, so no call adds a reference outside the eight slots.
\<close>

theorem cache_slots_eight:
  "cache_slots (TeXBot_init gs) = [None, None, None, None, None, None, None, None]
   \<and> length (cache_slots b) = 8
   \<and> length (filter (\<lambda>x. x \<noteq> None) (cache_slots b)) \<le> 12
   \<and> length (filter is_guild_ref (cache_slots b)) \<le> 1
   \<and> length (filter is_role_ref (cache_slots b)) \<le> 4
   \<and> length (filter is_channel_ref (cache_slots b)) \<le> 3
   \<and> snd (committee_role st b) = b\<lparr>slot_committee_role := slot_committee_role (snd (committee_role st b))\<rparr>
   \<and> snd (guest_role st b) = b\<lparr>slot_guest_role := slot_guest_role (snd (guest_role st b))\<rparr>
   \<and> snd (member_role st b) = b\<lparr>slot_member_role := slot_member_role (snd (member_role st b))\<rparr>
   \<and> snd (archivist_role st b) = b\<lparr>slot_archivist_role := slot_archivist_role (snd (archivist_role st b))\<rparr>
   \<and> snd (roles_channel st b) = b\<lparr>slot_roles_channel := slot_roles_channel (snd (roles_channel st b))\<rparr>
   \<and> snd (general_channel st b) = b\<lparr>slot_general_channel := slot_general_channel (snd (general_channel st b))\<rparr>
   \<and> snd (welcome_channel st b) = b\<lparr>slot_welcome_channel := slot_welcome_channel (snd (welcome_channel st b))\<rparr>"
proof (intro conjI)
  show "cache_slots (TeXBot_init gs) = [None, None, None, None, None, None, None, None]"
    by (simp add: cache_slots_def TeXBot_init_def)
  show len: "length (cache_slots b) = 8"
    by (simp add: cache_slots_def)
  show "length (filter (\<lambda>x. x \<noteq> None) (cache_slots b)) \<le> 12"
    by (rule length_filter_le_8[OF len])
  show "length (filter is_guild_ref (cache_slots b)) \<le> 1"
    by (simp add: cache_slots_def ref_kinds)
  show "length (filter is_role_ref (cache_slots b)) \<le> 4"
    by (simp add: cache_slots_def ref_kinds)
  show "length (filter is_channel_ref (cache_slots b)) \<le> 3"
    by (simp add: cache_slots_def ref_kinds)
qed (rule committee_role_frame guest_role_frame member_role_frame archivist_role_frame
       roles_channel_frame general_channel_frame welcome_channel_frame)+

section \<open>Claims about formatting and the invitation link\<close>

lemma float_eq_Finite: "float_eq v (Finite q) \<longleftrightarrow> v = Finite q"
  by (cases v) auto

lemma float_mod_1_zero_iff:
  "float_mod_1 v = Finite 0 \<longleftrightarrow> (\<exists>n::int. v = Finite (of_int n))"
proof (cases v)
  case (Finite q)
  have "q - of_int \<lfloor>q\<rfloor> = 0 \<longleftrightarrow> (\<exists>n::int. q = of_int n)"
  proof
    assume "q - of_int \<lfloor>q\<rfloor> = 0"
    then have "q = of_int \<lfloor>q\<rfloor>" by simp
    then show "\<exists>n::int. q = of_int n" ..
  next
    assume "\<exists>n::int. q = of_int n"
    then obtain n :: int where "q = of_int n" ..
    then show "q - of_int \<lfloor>q\<rfloor> = 0" by simp
  qed
  with Finite show ?thesis by simp
qed simp_all

text \<open>
  Claim C9. \<^verbatim>\<open>amount_of_time_formatter\<close> returns the time scale alone when the
  value equals 1; the default string form of the value, a space and the time
  scale followed by \<^verbatim>\<open>s\<close> when the value is a whole number other than 1; and
  the value in the format \<^verbatim>\<open>.3\<close> (three significant digits), a space and the
  time scale followed by \<^verbatim>\<open>s\<close> for every other value, the infinities and NaN
  included.
\<close>

theorem amount_of_time_formatter_cases:
  "amount_of_time_formatter format_default format_3 value time_scale =
     (if value = Finite 1 then time_scale
      else if \<exists>n::int. value = Finite (of_int n)
        then format_default value @ '' '' @ time_scale @ ''s''
      else format_3 value @ '' '' @ time_scale @ ''s'')"
  by (simp only: amount_of_time_formatter_def float_eq_Finite float_mod_1_zero_iff)

theorem amount_of_time_formatter_cases_witness:
  "amount_of_time_formatter (\<lambda>v. ''2.0'') (\<lambda>v. ''3.14'') (Finite 1) ''day'' = ''day''
   \<and> amount_of_time_formatter (\<lambda>v. ''2.0'') (\<lambda>v. ''3.14'') (Finite 2) ''week'' = ''2.0 weeks''
   \<and> amount_of_time_formatter (\<lambda>v. ''2.0'') (\<lambda>v. ''3.14'') (Finite (314159 / 100000)) ''month''
       = ''3.14 months''"
proof -
  have two: "\<exists>n::int. (Finite 2 :: pyfloat) = Finite (of_int n)"
    by (rule exI[of _ 2]) simp
  have "\<not> (\<exists>n::int. (314159 / 100000 :: rat) = of_int n)"
  proof
    assume "\<exists>n::int. (314159 / 100000 :: rat) = of_int n"
    then obtain n :: int where n: "(314159 / 100000 :: rat) = of_int n" ..
    then have "\<lfloor>314159 / 100000 :: rat\<rfloor> = \<lfloor>of_int n :: rat\<rfloor>" by (simp only:)
    moreover have "\<lfloor>314159 / 100000 :: rat\<rfloor> = 3" by (rule floor_unique) simp_all
    ultimately have "n = 3" by simp
    with n show False by simp
  qed
  then have pi: "\<not> (\<exists>n::int. Finite (314159 / 100000) = Finite (of_int n))" by simp
  show ?thesis
    using two pi
      amount_of_time_formatter_cases[of "\<lambda>v. ''2.0''" "\<lambda>v. ''3.14''" "Finite 1" "''day''"]
      amount_of_time_formatter_cases[of "\<lambda>v. ''2.0''" "\<lambda>v. ''3.14''" "Finite 2" "''week''"]
      amount_of_time_formatter_cases[of "\<lambda>v. ''2.0''" "\<lambda>v. ''3.14''" "Finite (314159 / 100000)" "''month''"]
    by simp
qed

text \<open>
  Claim C10. \<^verbatim>\<open>get_oauth_url\<close> raises \<^verbatim>\<open>ImproperlyConfigured\<close> exactly when the
  entry \<^verbatim>\<open>DISCORD_BOT_APPLICATION_ID\<close> of the settings is falsy, and raises
  nothing else. When the entry is set, the result is the library's OAuth URL
  for that application id, the eleven permissions of the source, each switched
  on, the configured guild id and the scopes \<^verbatim>\<open>bot\<close> and
  \<^verbatim>\<open>applications.commands\<close>, with the guild selection disabled.
\<close>

theorem get_oauth_url_cases:
  "((\<exists>m. get_oauth_url oauth_url st = Inl (ImproperlyConfigured m))
      \<longleftrightarrow> \<not> truthy (DISCORD_BOT_APPLICATION_ID st))
   \<and> ((\<exists>e. get_oauth_url oauth_url st = Inl e) \<longleftrightarrow> \<not> truthy (DISCORD_BOT_APPLICATION_ID st))
   \<and> (truthy (DISCORD_BOT_APPLICATION_ID st) \<longrightarrow>
        get_oauth_url oauth_url st =
          Inr (oauth_url (DISCORD_BOT_APPLICATION_ID st) oauth_permissions (DISCORD_GUILD_ID st)
                 {''bot'', ''applications.commands''} True))
   \<and> length oauth_permissions = 11
   \<and> distinct (map fst oauth_permissions)
   \<and> (\<forall>p \<in> set oauth_permissions. snd p)"
  by (simp add: get_oauth_url_def oauth_permissions_def)

theorem get_oauth_url_cases_witness:
  "truthy (DISCORD_BOT_APPLICATION_ID \<lparr>DISCORD_BOT_APPLICATION_ID = PyStr ''42'', DISCORD_GUILD_ID = 1\<rparr>)
   \<and> get_oauth_url (\<lambda>client_id permissions guild scopes disable. ''url'')
        \<lparr>DISCORD_BOT_APPLICATION_ID = PyStr ''42'', DISCORD_GUILD_ID = 1\<rparr> = Inr ''url''
   \<and> \<not> truthy (DISCORD_BOT_APPLICATION_ID \<lparr>DISCORD_BOT_APPLICATION_ID = PyStr '''', DISCORD_GUILD_ID = 1\<rparr>)
   \<and> (\<exists>m. get_oauth_url (\<lambda>client_id permissions guild scopes disable. ''url'')
        \<lparr>DISCORD_BOT_APPLICATION_ID = PyStr '''', DISCORD_GUILD_ID = 1\<rparr> = Inl (ImproperlyConfigured m))"
  using get_oauth_url_cases[of "\<lambda>client_id permissions guild scopes disable. ''url''"
          "\<lparr>DISCORD_BOT_APPLICATION_ID = PyStr ''42'', DISCORD_GUILD_ID = 1\<rparr>"]
        get_oauth_url_cases[of "\<lambda>client_id permissions guild scopes disable. ''url''"
          "\<lparr>DISCORD_BOT_APPLICATION_ID = PyStr '''', DISCORD_GUILD_ID = 1\<rparr>"]
  by simp

section \<open>Claims about captured errors\<close>

text \<open>
  Claim C2. Let the wrapper that \<^verbatim>\<open>capture_error\<close> builds run on an instance of
  \<^verbatim>\<open>TeXBotCog\<close>. If the wrapped coroutine returns a value, the wrapper returns
  that value and does nothing else. If it raises an exception that
  \<^verbatim>\<open>error_type\<close> matches, the wrapper calls \<^verbatim>\<open>close_func\<close> on that exception,
  then awaits the closing of the bot on the state that \<^verbatim>\<open>close_func\<close> left,
  and, both having returned, returns \<^verbatim>\<open>None\<close>. If it raises an exception that
  \<^verbatim>\<open>error_type\<close> does not match, the wrapper raises the same exception and
  calls neither.
\<close>

theorem capture_error_protocol:
  "(func TeXBotCog_instance s = (Inr v, s1) \<longrightarrow>
      capture_error bot_close repr_of func error_type close_func TeXBotCog_instance s
        = (Inr (Some v), s1))
   \<and> (func TeXBotCog_instance s = (Inl error, s1) \<and> error_type error
        \<and> close_func error s1 = (Inr (), s2) \<and> bot_close s2 = (Inr (), s3) \<longrightarrow>
      capture_error bot_close repr_of func error_type close_func TeXBotCog_instance s
        = (Inr None, s3))
   \<and> (func TeXBotCog_instance s = (Inl error, s1) \<and> \<not> error_type error \<longrightarrow>
      capture_error bot_close repr_of func error_type close_func TeXBotCog_instance s
        = (Inl error, s1))"
  by (simp add: capture_error_def)

theorem capture_error_protocol_witness:
  "capture_guild_does_not_exist_error (\<lambda>s. s) (\<lambda>e. ''Server with id 1 does not exist.'')
     (\<lambda>self w. (Inl (GuildDoesNotExist 1), w)) TeXBotCog_instance
     idle_world
   = (Inr (None :: unit option),
      \<lparr>bot = TeXBot_init [], responses = [],
        log = [(''CRITICAL'', ''Server with id 1 does not exist'')], closed = True\<rparr>)
   \<and> capture_guild_does_not_exist_error (\<lambda>s. s) (\<lambda>e. ''Server with id 1 does not exist.'')
     (\<lambda>self w. (Inr (7 :: int), w)) TeXBotCog_instance
     idle_world
   = (Inr (Some 7), idle_world)
   \<and> capture_guild_does_not_exist_error (\<lambda>s. s) (\<lambda>e. ''Server with id 1 does not exist.'')
     (\<lambda>self w. (Inl (TypeError ''bad''), w)) TeXBotCog_instance
     idle_world
   = (Inl (TypeError ''bad'') :: exn + unit option,
      idle_world)"
  using
    capture_error_protocol[of "\<lambda>self w. (Inl (GuildDoesNotExist 1), w)"
      "idle_world"
      "()" "idle_world"
      Bot_close "\<lambda>s. s" GuildDoesNotExist_type
      "guild_does_not_exist_error_close_func (\<lambda>e. ''Server with id 1 does not exist.'')"
      "GuildDoesNotExist 1"
      "\<lparr>bot = TeXBot_init [], responses = [],
        log = [(''CRITICAL'', ''Server with id 1 does not exist'')], closed = False\<rparr>"
      "\<lparr>bot = TeXBot_init [], responses = [],
        log = [(''CRITICAL'', ''Server with id 1 does not exist'')], closed = True\<rparr>"]
    capture_error_protocol[of "\<lambda>self w. (Inr (7 :: int), w)"
      "idle_world"
      7 "idle_world"
      Bot_close "\<lambda>s. s" GuildDoesNotExist_type
      "guild_does_not_exist_error_close_func (\<lambda>e. ''Server with id 1 does not exist.'')"]
    capture_error_protocol[of "\<lambda>self w. (Inl (TypeError ''bad''), w) :: (exn + unit) \<times> world"
      "idle_world"
      "()" "idle_world"
      Bot_close "\<lambda>s. s" GuildDoesNotExist_type
      "guild_does_not_exist_error_close_func (\<lambda>e. ''Server with id 1 does not exist.'')"
      "TypeError ''bad''"]
  by (simp add: capture_guild_does_not_exist_error_def guild_does_not_exist_error_close_func_def
        Bot_close_def py_rstrip_def)

section \<open>Claims about error replies\<close>

subsection \<open>The pattern that \<^verbatim>\<open>send_error\<close> substitutes\<close>












subsection \<open>The reply\<close>

lemma send_error_responds:
  assumes "(case error_code of None \<Rightarrow> False | Some ec \<Rightarrow> ec \<noteq> []) \<longrightarrow>
             committee_role_of (bot w) = (Inr ro, b1)"
  shows "\<exists>reply w'.
      send_error committee_role_of str_of cmd error_code message logging_message w = (Inr (), w')
      \<and> responses w' = responses w @ [(reply, True)]
      \<and> (\<forall>ec. error_code = Some ec \<and> ec \<noteq> [] \<longrightarrow>
            (\<exists>rest. reply = ''**Contact a ''
               @ (case ro of None \<Rightarrow> ''committee'' | Some r \<Rightarrow> role_mention r)
               @ '' member, referencing error code: '' @ ec @ ''**'' @ rest))
      \<and> (error_code = None \<or> error_code = Some [] \<longrightarrow>
            bot w' = bot w \<and> (\<exists>rest. reply = '':warning:There was an error'' @ rest))
      \<and> (\<forall>m. message = Some m \<and> m \<noteq> [] \<longrightarrow>
            (\<exists>front. reply = front @ [CHR 0x0A] @ ''`'' @ re_sub_mentions (py_strip m) @ ''`''))"
  using assms
  by (cases error_code; cases message; cases logging_message)
     (auto simp: send_error_def Let_def split: option.splits)

lemma send_error_ephemeral:
  "\<exists>new. responses (snd (send_error committee_role_of str_of cmd error_code message
                             logging_message w)) = responses w @ new
         \<and> (\<forall>x \<in> set new. snd x)"
proof (cases "(case error_code of None \<Rightarrow> False | Some ec \<Rightarrow> ec \<noteq> [])")
  case False
  then have "(case error_code of None \<Rightarrow> False | Some ec \<Rightarrow> ec \<noteq> []) \<longrightarrow>
             committee_role_of (bot w) = (Inr None, bot w)" by simp
  from send_error_responds[where committee_role_of=committee_role_of and w=w
      and str_of=str_of and cmd=cmd and message=message and logging_message=logging_message,
      OF this]
  obtain reply w' where
    "send_error committee_role_of str_of cmd error_code message logging_message w = (Inr (), w')"
    "responses w' = responses w @ [(reply, True)]" by blast
  then have "responses (snd (send_error committee_role_of str_of cmd error_code message
                             logging_message w)) = responses w @ [(reply, True)]
         \<and> (\<forall>x \<in> set [(reply, True)]. snd x)" by simp
  then show ?thesis by blast
next
  case True
  obtain res b1 where cr: "committee_role_of (bot w) = (res, b1)" by (cases "committee_role_of (bot w)")
  show ?thesis
  proof (cases res)
    case (Inl e)
    with True cr have "responses (snd (send_error committee_role_of str_of cmd error_code message
                             logging_message w)) = responses w @ []
         \<and> (\<forall>x \<in> set ([] :: (string \<times> bool) list). snd x)"
      by (simp add: send_error_def Let_def)
    then show ?thesis by blast
  next
    case (Inr ro)
    with cr have "(case error_code of None \<Rightarrow> False | Some ec \<Rightarrow> ec \<noteq> []) \<longrightarrow>
             committee_role_of (bot w) = (Inr ro, b1)" by simp
    from send_error_responds[where committee_role_of=committee_role_of and w=w
      and str_of=str_of and cmd=cmd and message=message and logging_message=logging_message,
      OF this]
    obtain reply w' where
      "send_error committee_role_of str_of cmd error_code message logging_message w = (Inr (), w')"
      "responses w' = responses w @ [(reply, True)]" by blast
    then have "responses (snd (send_error committee_role_of str_of cmd error_code message
                             logging_message w)) = responses w @ [(reply, True)]
         \<and> (\<forall>x \<in> set [(reply, True)]. snd x)" by simp
    then show ?thesis by blast
  qed
qed


text \<open>
  Claim C7, as amended. For every call of \<^verbatim>\<open>send_error\<close> with an error code that
  is neither \<^verbatim>\<open>None\<close> nor the empty string, and whose reading of the committee
  role returns, one reply is sent, it is ephemeral, and it begins with the
  contact line: the mention of the committee role when the accessor yields a
  role and the word \<^verbatim>\<open>committee\<close> when it yields \<^verbatim>\<open>None\<close>, followed by the error
  code. With an error code that is \<^verbatim>\<open>None\<close> or the empty string the contact line
  is omitted: one ephemeral reply is sent, it begins with the warning, and the
  committee role is not read, so the bot stays as it was. Every reply that any
  call of \<^verbatim>\<open>send_error\<close> sends is ephemeral.
\<close>

theorem send_error_contact_line:
  "(error_code = Some ec \<and> ec \<noteq> [] \<and> committee_role_of (bot w) = (Inr ro, b1) \<longrightarrow>
      (\<exists>reply rest w'.
         send_error committee_role_of str_of cmd error_code message logging_message w
           = (Inr (), w')
         \<and> responses w' = responses w @ [(reply, True)]
         \<and> reply = ''**Contact a ''
             @ (case ro of None \<Rightarrow> ''committee'' | Some r \<Rightarrow> role_mention r)
             @ '' member, referencing error code: '' @ ec @ ''**'' @ rest))
   \<and> (error_code = None \<or> error_code = Some [] \<longrightarrow>
      (\<exists>reply rest w'.
         send_error committee_role_of str_of cmd error_code message logging_message w
           = (Inr (), w')
         \<and> responses w' = responses w @ [(reply, True)]
         \<and> bot w' = bot w
         \<and> reply = '':warning:There was an error'' @ rest))
   \<and> (\<exists>new. responses (snd (send_error committee_role_of str_of cmd error_code message
                               logging_message w)) = responses w @ new
           \<and> (\<forall>x \<in> set new. snd x))"
proof (intro conjI impI)
  assume a: "error_code = Some ec \<and> ec \<noteq> [] \<and> committee_role_of (bot w) = (Inr ro, b1)"
  then have "(case error_code of None \<Rightarrow> False | Some ec \<Rightarrow> ec \<noteq> []) \<longrightarrow>
             committee_role_of (bot w) = (Inr ro, b1)" by simp
  from send_error_responds[where committee_role_of=committee_role_of and w=w
      and str_of=str_of and cmd=cmd and message=message and logging_message=logging_message,
      OF this] a
  show "\<exists>reply rest w'.
         send_error committee_role_of str_of cmd error_code message logging_message w
           = (Inr (), w')
         \<and> responses w' = responses w @ [(reply, True)]
         \<and> reply = ''**Contact a ''
             @ (case ro of None \<Rightarrow> ''committee'' | Some r \<Rightarrow> role_mention r)
             @ '' member, referencing error code: '' @ ec @ ''**'' @ rest"
    by blast
next
  assume a: "error_code = None \<or> error_code = Some []"
  then have "(case error_code of None \<Rightarrow> False | Some ec \<Rightarrow> ec \<noteq> []) \<longrightarrow>
             committee_role_of (bot w) = (Inr None, bot w)" by auto
  from send_error_responds[where committee_role_of=committee_role_of and w=w
      and str_of=str_of and cmd=cmd and message=message and logging_message=logging_message,
      OF this] a
  show "\<exists>reply rest w'.
         send_error committee_role_of str_of cmd error_code message logging_message w
           = (Inr (), w')
         \<and> responses w' = responses w @ [(reply, True)]
         \<and> bot w' = bot w
         \<and> reply = '':warning:There was an error'' @ rest"
    by blast
next
  show "\<exists>new. responses (snd (send_error committee_role_of str_of cmd error_code message
                               logging_message w)) = responses w @ new
           \<and> (\<forall>x \<in> set new. snd x)"
    by (rule send_error_ephemeral)
qed

text \<open>
  The claim as first stated fails for the empty error code, which is not
  \<^verbatim>\<open>None\<close>: the reply starts with the warning and has no contact line.
\<close>

theorem send_error_counterexample:
  "Some ([] :: string) \<noteq> None
   \<and> send_error (committee_role settings_guild_1) (\<lambda>e. []) ping_command
       (Some []) None None
       idle_world
     = (Inr (),
        \<lparr>bot = TeXBot_init [],
          responses = [('':warning:There was an error when trying to reply to ping.:warning:'', True)],
          log = [], closed = False\<rparr>)
   \<and> take 2 '':warning:There was an error when trying to reply to ping.:warning:'' \<noteq> ''**''"
  by (simp add: send_error_def Let_def command_name_of_def startswith_underscore_def
        ERROR_ACTIVITIES_def)

theorem send_error_contact_line_witness:
  "committee_role settings_guild_1
     (bot \<lparr>bot = connected_bot guild_with_committee, responses = [], log = [], closed = False\<rparr>)
     = (Inr (Some committee_5),
        (connected_bot guild_with_committee)\<lparr>slot_committee_role := Some committee_5\<rparr>)
   \<and> send_error (committee_role settings_guild_1) (\<lambda>e. []) ping_command
       (Some ''E1'') None None
       \<lparr>bot = connected_bot guild_with_committee, responses = [], log = [], closed = False\<rparr>
     = (Inr (),
        \<lparr>bot = (connected_bot guild_with_committee)\<lparr>slot_committee_role := Some committee_5\<rparr>,
          responses = [(''**Contact a <@&5> member, referencing error code: E1**''
              @ [CHR 0x0A] @ '':warning:There was an error when trying to reply to ping.:warning:'', True)],
          log = [], closed = False\<rparr>)
   \<and> send_error (committee_role settings_guild_1) (\<lambda>e. []) ping_command
       (Some []) None None
       \<lparr>bot = connected_bot guild_with_committee, responses = [], log = [], closed = False\<rparr>
     = (Inr (),
        \<lparr>bot = connected_bot guild_with_committee,
          responses = [('':warning:There was an error when trying to reply to ping.:warning:'', True)],
          log = [], closed = False\<rparr>)"
proof -
  have h: "committee_role settings_guild_1
     (bot \<lparr>bot = connected_bot guild_with_committee, responses = [], log = [], closed = False\<rparr>)
     = (Inr (Some committee_5),
        (connected_bot guild_with_committee)\<lparr>slot_committee_role := Some committee_5\<rparr>)"
    by (simp add: committee_role_def css_guild_def TeXBot_init_def Let_def)
  have e: "send_error (committee_role settings_guild_1) (\<lambda>e. []) ping_command
       (Some ''E1'') None None
       \<lparr>bot = connected_bot guild_with_committee, responses = [], log = [], closed = False\<rparr>
     = (Inr (),
        \<lparr>bot = (connected_bot guild_with_committee)\<lparr>slot_committee_role := Some committee_5\<rparr>,
          responses = [(''**Contact a <@&5> member, referencing error code: E1**''
              @ [CHR 0x0A] @ '':warning:There was an error when trying to reply to ping.:warning:'', True)],
          log = [], closed = False\<rparr>)"
    by (simp add: send_error_def committee_role_def css_guild_def TeXBot_init_def Let_def
        command_name_of_def startswith_underscore_def ERROR_ACTIVITIES_def)
  have n: "send_error (committee_role settings_guild_1) (\<lambda>e. []) ping_command
       (Some []) None None
       \<lparr>bot = connected_bot guild_with_committee, responses = [], log = [], closed = False\<rparr>
     = (Inr (),
        \<lparr>bot = connected_bot guild_with_committee,
          responses = [('':warning:There was an error when trying to reply to ping.:warning:'', True)],
          log = [], closed = False\<rparr>)"
    by (simp add: send_error_def TeXBot_init_def Let_def
        command_name_of_def startswith_underscore_def ERROR_ACTIVITIES_def)
  from send_error_contact_line[of "Some ''E1''" "''E1''" "committee_role settings_guild_1"
      "\<lparr>bot = connected_bot guild_with_committee, responses = [], log = [], closed = False\<rparr>"
      "Some committee_5"
      "(connected_bot guild_with_committee)\<lparr>slot_committee_role := Some committee_5\<rparr>"
      "\<lambda>e. []" "ping_command" None None]
    send_error_contact_line[of "Some []" "[]" "committee_role settings_guild_1"
      "\<lparr>bot = connected_bot guild_with_committee, responses = [], log = [], closed = False\<rparr>"
      "None" "connected_bot guild_with_committee"
      "\<lambda>e. []" "ping_command" None None]
    h e n
  show ?thesis by simp
qed




end
